theory Spec2Isabelle
  imports Complex_Main "HOL-Library.AList" "HOL-Library.Char_ord" "HOL-Library.List_Lexorder"
begin

section \<open>Numbers\<close>

text \<open>
  Every numeric field of the program is a JavaScript number, an IEEE 754 binary64 value.
  A finite one is the rational it denotes, so \<open>Fin\<close> carries a \<open>rat\<close>; the two
  infinities and NaN are separate values. The two zeros are not told apart: the program
  never divides by a zero (the only divisor is the length of a non-empty array) and never
  prints the sign of a zero from the functions modelled here.
\<close>

datatype number = Fin rat | Infinity bool | NaN

text \<open>
  \<open>bit_length n\<close> is the number of binary digits of a positive integer \<open>n\<close>, and
  \<open>ilog2 x\<close> the exponent \<open>e\<close> with \<open>2^e \<le> x < 2^(e+1)\<close> of a positive rational.
\<close>

function bit_length :: "int \<Rightarrow> nat" where
  "bit_length n = (if n \<le> 0 then 0 else Suc (bit_length (n div 2)))"
  by pat_completeness auto
termination
  by (relation "measure nat") auto

definition ilog2 :: "rat \<Rightarrow> int" where
  "ilog2 x =
     (let (p, q) = quotient_of x;
          d = int (bit_length p) - int (bit_length q)
      in if 2 powi d \<le> x then d else d - 1)"

definition round_half_even :: "rat \<Rightarrow> int" where
  "round_half_even x =
     (let f = \<lfloor>x\<rfloor>; d = x - of_int f
      in if d < 1 / 2 then f
         else if 1 / 2 < d then f + 1
         else if even f then f else f + 1)"

text \<open>
  \<open>fl x\<close> rounds the exact result \<open>x\<close> of an operation to binary64: 53 significant
  bits, ties to the even significand, the spacing of the subnormals below \<open>2^-1022\<close>,
  and an infinity once the rounded magnitude reaches \<open>2^1024\<close>.
\<close>

definition fl :: "rat \<Rightarrow> number" where
  "fl x =
     (if x = 0 then Fin 0
      else let e = max (ilog2 \<bar>x\<bar>) (- 1022);
               u = 2 powi (e - 52);
               y = of_int (round_half_even (\<bar>x\<bar> / u)) * u
           in if 2 ^ 1024 \<le> y then Infinity (x < 0) else Fin (sgn x * y))"

text \<open>The operators \<open>+\<close>, \<open>*\<close> and \<open>/\<close> on numbers; \<open>Infinity True\<close> is the negative one.\<close>

fun num_add :: "number \<Rightarrow> number \<Rightarrow> number" where
  "num_add (Fin a) (Fin b) = fl (a + b)"
| "num_add (Fin a) (Infinity t) = Infinity t"
| "num_add (Infinity s) (Fin b) = Infinity s"
| "num_add (Infinity s) (Infinity t) = (if s = t then Infinity s else NaN)"
| "num_add NaN b = NaN"
| "num_add a NaN = NaN"

fun num_mul :: "number \<Rightarrow> number \<Rightarrow> number" where
  "num_mul (Fin a) (Fin b) = fl (a * b)"
| "num_mul (Fin a) (Infinity t) = (if a = 0 then NaN else Infinity (t \<noteq> (a < 0)))"
| "num_mul (Infinity s) (Fin b) = (if b = 0 then NaN else Infinity (s \<noteq> (b < 0)))"
| "num_mul (Infinity s) (Infinity t) = Infinity (s \<noteq> t)"
| "num_mul NaN b = NaN"
| "num_mul a NaN = NaN"

text \<open>The comparison \<open>a > b\<close> of two numbers; it is false when either is NaN.\<close>

fun num_greater :: "number \<Rightarrow> number \<Rightarrow> bool" where
  "num_greater (Fin a) (Fin b) = (b < a)"
| "num_greater (Fin a) (Infinity t) = t"
| "num_greater (Infinity s) (Fin b) = (\<not> s)"
| "num_greater (Infinity s) (Infinity t) = (\<not> s \<and> t)"
| "num_greater NaN b = False"
| "num_greater a NaN = False"

fun num_div :: "number \<Rightarrow> number \<Rightarrow> number" where
  "num_div (Fin a) (Fin b) =
     (if b = 0 then (if a = 0 then NaN else Infinity (a < 0)) else fl (a / b))"
| "num_div (Fin a) (Infinity t) = Fin 0"
| "num_div (Infinity s) (Fin b) = Infinity (s \<noteq> (b < 0))"
| "num_div (Infinity s) (Infinity t) = NaN"
| "num_div NaN b = NaN"
| "num_div a NaN = NaN"

section \<open>Sale records\<close>

text \<open>
  Modelled from the spec: the interface \<open>Sale\<close> is imported from \<open>@/types/Sale\<close>, a file
  that is not part of the sources at hand. Its fields are those that \<open>handleSubmit\<close>
  writes; \<open>id\<close> and \<open>quantity\<close> are integers (the results of \<open>Date.now()\<close> and of
  \<open>parseInt\<close>), \<open>price\<close> and \<open>total\<close> are numbers. An integer field \<open>i\<close>
  stands for the number \<open>Fin (of_int i)\<close>, and ranges over the integers that are
  numbers (every integer up to \<open>2^53\<close> in magnitude is one, lemma \<open>fl_of_int\<close>
  below). All arithmetic on the fields is that of numbers. A text is a \<open>string\<close>;
  only equality of texts matters to the functions modelled, except where two texts
  built from inherited properties are compared. The fields \<open>id\<close> and \<open>total\<close>
  carry a suffix because HOL has constants of these names.
\<close>

record sale =
  id_sale :: int
  date :: string
  productName :: string
  price :: number
  quantity :: int
  category :: string
  total_sale :: number

section \<open>Objects used as dictionaries\<close>

text \<open>
  \<open>productSales\<close> and \<open>categorySales\<close> are object literals \<open>{}\<close> indexed by free
  text. Such an object holds its own properties in creation order, and inherits the
  properties of \<open>Object.prototype\<close>. A value stored by the program is a number or,
  when the key names an inherited property, the text that \<open>+\<close> builds from the
  inherited object.
\<close>

datatype jsval = Num number | Text string

type_synonym object = "(string \<times> jsval) list"

text \<open>
  The properties of \<open>Object.prototype\<close>, each with the name of the function it holds.
  Converted to a primitive, a built-in function is its source text (the one V8 prints is
  used; engines differ in white space only), and \<open>__proto__\<close> reads as the prototype
  object itself, whose text is \<open>[object Object]\<close>.
\<close>

definition Object_prototype :: "(string \<times> string) list" where
  "Object_prototype =
     [(''constructor'', ''Object''),
      (''__defineGetter__'', ''__defineGetter__''),
      (''__defineSetter__'', ''__defineSetter__''),
      (''hasOwnProperty'', ''hasOwnProperty''),
      (''__lookupGetter__'', ''__lookupGetter__''),
      (''__lookupSetter__'', ''__lookupSetter__''),
      (''isPrototypeOf'', ''isPrototypeOf''),
      (''propertyIsEnumerable'', ''propertyIsEnumerable''),
      (''toString'', ''toString''),
      (''valueOf'', ''valueOf''),
      (''toLocaleString'', ''toLocaleString'')]"

definition inherited :: "string \<Rightarrow> string option" where
  "inherited k =
     (if k = ''__proto__'' then Some ''[object Object]''
      else map_option (\<lambda>f. ''function '' @ f @ ''() { [native code] }'')
             (map_of Object_prototype k))"

text \<open>
  \<open>obj[k]\<close>: the own property, else the inherited one (as the text it converts to),
  else \<open>undefined\<close>, which is \<open>None\<close>.
\<close>

definition obj_get :: "object \<Rightarrow> string \<Rightarrow> jsval option" where
  "obj_get obj k =
     (case map_of obj k of
        Some v \<Rightarrow> Some v
      | None \<Rightarrow> map_option Text (inherited k))"

text \<open>
  \<open>obj[k] = v\<close>: an own property keeps its place, a new one goes to the end. The key
  \<open>__proto__\<close> is the setter of \<open>Object.prototype\<close>, which ignores a value that is
  neither an object nor null and creates no property.
\<close>

definition obj_set :: "object \<Rightarrow> string \<Rightarrow> jsval \<Rightarrow> object" where
  "obj_set obj k v = (if k = ''__proto__'' then obj else AList.update k v obj)"

text \<open>
  \<open>x || 0\<close>: \<open>undefined\<close>, the number 0, NaN and the empty text are falsy and
  give 0; every other value is kept.
\<close>

fun or_zero :: "jsval option \<Rightarrow> jsval" where
  "or_zero None = Num (Fin 0)"
| "or_zero (Some (Num n)) = (if n = Fin 0 \<or> n = NaN then Num (Fin 0) else Num n)"
| "or_zero (Some (Text s)) = (if s = [] then Num (Fin 0) else Text s)"

text \<open>
  The text of an integer-valued number, as \<open>+\<close> builds it when the other operand is
  a text. \<open>digits\<close> writes a non-negative integer in decimal. The conversion of a
  number \<open>x\<close> takes the decimal with the fewest significant digits that reads back as
  \<open>x\<close> (the nearer to \<open>x\<close> if the two neighbours of \<open>x\<close> at that length both do,
  the one with the even last digit if they are equally near), written in full up to
  21 digits and with an exponent beyond. For an integer up to \<open>2^53\<close> these are its own
  digits.
\<close>

function digits :: "int \<Rightarrow> string" where
  "digits n =
     (if n < 10 then [char_of (48 + n)]
      else digits (n div 10) @ [char_of (48 + n mod 10)])"
  by pat_completeness auto
termination
  by (relation "measure nat") auto

definition reads_as :: "int \<Rightarrow> int \<Rightarrow> bool" where
  "reads_as c x = (fl (of_int c) = Fin (of_int x))"

definition nearest_at :: "int \<Rightarrow> nat \<Rightarrow> int option" where
  "nearest_at x z =
     (let g = 10 ^ z; lo = (x div g) * g; hi = lo + g
      in if reads_as lo x \<and> reads_as hi x then
           (if x - lo < hi - x then Some lo
            else if hi - x < x - lo then Some hi
            else if even (lo div g) then Some lo else Some hi)
         else if reads_as lo x then Some lo
         else if reads_as hi x then Some hi
         else None)"

fun first_some :: "('a \<Rightarrow> 'b option) \<Rightarrow> 'a list \<Rightarrow> 'b option" where
  "first_some f [] = None"
| "first_some f (x # xs) = (case f x of Some y \<Rightarrow> Some y | None \<Rightarrow> first_some f xs)"

definition shortest_decimal :: "int \<Rightarrow> int" where
  "shortest_decimal x =
     (case first_some (nearest_at x) (rev [0..<length (digits x)]) of
        Some c \<Rightarrow> c
      | None \<Rightarrow> x)"

definition strip_zeros :: "string \<Rightarrow> string" where
  "strip_zeros s = rev (dropWhile (\<lambda>c. c = CHR ''0'') (rev s))"

definition Number_toString :: "int \<Rightarrow> string" where
  "Number_toString x =
     (let c = digits (shortest_decimal x); n = length c
      in if n \<le> 21 then c
         else let s = strip_zeros c
              in (if length s = 1 then s else hd s # CHR ''.'' # tl s)
                 @ ''e+'' @ digits (int n - 1))"

definition ToString :: "int \<Rightarrow> string" where
  "ToString i = (if i < 0 then CHR ''-'' # Number_toString (- i) else Number_toString i)"

text \<open>
  \<open>x + q\<close> for the number of an integer \<open>q\<close>: addition of numbers, concatenation
  onto a text.
\<close>

fun plus_number :: "jsval \<Rightarrow> int \<Rightarrow> jsval" where
  "plus_number (Num n) q = Num (num_add n (Fin (of_int q)))"
| "plus_number (Text s) q = Text (s @ ToString q)"

text \<open>
  \<open>x > y\<close>: two texts compare by code units; otherwise both sides convert to numbers,
  \<open>undefined\<close> and the texts that arise here (none is a numeric literal) convert to NaN,
  and a comparison with NaN is false.
\<close>

fun greater_than :: "jsval option \<Rightarrow> jsval option \<Rightarrow> bool" where
  "greater_than (Some (Num a)) (Some (Num b)) = num_greater a b"
| "greater_than (Some (Text s)) (Some (Text t)) = (t < s)"
| "greater_than x y = False"

text \<open>
  \<open>Object.keys(obj)\<close>: the own keys that are array indices (canonical decimal numerals
  below \<open>2^32 - 1\<close>) in ascending numeric order, then the other keys in creation order.
  \<open>property_order\<close> arranges a list of keys given in creation order in this way.
\<close>

definition array_index :: "string \<Rightarrow> int" where
  "array_index s = foldl (\<lambda>n c. 10 * n + (of_char c - 48)) 0 s"

definition is_array_index :: "string \<Rightarrow> bool" where
  "is_array_index s =
     (s \<noteq> [] \<and> list_all (\<lambda>c. c \<in> set ''0123456789'') s
      \<and> (if hd s = CHR ''0'' then s = ''0'' else True)
      \<and> array_index s < 2 ^ 32 - 1)"

definition property_order :: "string list \<Rightarrow> string list" where
  "property_order ks =
     sort_key array_index (filter is_array_index ks) @ filter (\<lambda>k. \<not> is_array_index k) ks"

definition Object_keys :: "object \<Rightarrow> string list" where
  "Object_keys obj = property_order (map fst obj)"

section \<open>The component\<close>

text \<open>
  \<open>handleSubmit\<close> reads the form state and the clock. Its arguments are \<open>now\<close>, the
  value of \<open>Date.now()\<close>; \<open>today\<close>, the value of
  \<open>new Date().toISOString().slice(0, 10)\<close>; the two text fields; \<open>parseFloat(price)\<close>
  and \<open>parseInt(quantity)\<close>; and the current \<open>salesData\<close>. The result is the array
  passed to \<open>setSalesData\<close>.
\<close>

definition newSale :: "int \<Rightarrow> string \<Rightarrow> string \<Rightarrow> number \<Rightarrow> int \<Rightarrow> string \<Rightarrow> sale" where
  "newSale now today name parsedPrice parsedQuantity cat =
     \<lparr> id_sale = now,
       date = today,
       productName = name,
       price = parsedPrice,
       quantity = parsedQuantity,
       category = cat,
       total_sale = num_mul parsedPrice (Fin (of_int parsedQuantity)) \<rparr>"

definition handleSubmit ::
  "int \<Rightarrow> string \<Rightarrow> string \<Rightarrow> number \<Rightarrow> int \<Rightarrow> string \<Rightarrow> sale list \<Rightarrow> sale list" where
  "handleSubmit now today name parsedPrice parsedQuantity cat salesData =
     salesData @ [newSale now today name parsedPrice parsedQuantity cat]"

definition deleteSale :: "int \<Rightarrow> sale list \<Rightarrow> sale list" where
  "deleteSale i salesData = filter (\<lambda>sale. id_sale sale \<noteq> i) salesData"

text \<open>
  The loop \<open>salesData.forEach(sale => { obj[key] = (obj[key] || 0) + sale.quantity })\<close>
  occurs three times, with \<open>sale.productName\<close> (twice) and \<open>sale.category\<close> as the key.
\<close>

definition tally :: "(sale \<Rightarrow> string) \<Rightarrow> sale list \<Rightarrow> object" where
  "tally key salesData =
     foldl (\<lambda>obj sale.
              obj_set obj (key sale) (plus_number (or_zero (obj_get obj (key sale))) (quantity sale)))
       [] salesData"

text \<open>\<open>Object.keys(obj).reduce((a, b) => obj[a] > obj[b] ? a : b, 'None')\<close>\<close>

definition top_key :: "object \<Rightarrow> string" where
  "top_key obj =
     foldl (\<lambda>a b. if greater_than (obj_get obj a) (obj_get obj b) then a else b)
       ''None'' (Object_keys obj)"

record kpis =
  totalSales :: nat
  totalRevenue :: number
  avgOrderValue :: number
  topProduct :: string
  topCategory :: string

definition calculateKPIs :: "sale list \<Rightarrow> kpis" where
  "calculateKPIs salesData =
     (if length salesData = 0 then
        \<lparr> totalSales = 0, totalRevenue = Fin 0, avgOrderValue = Fin 0,
          topProduct = ''None'', topCategory = ''None'' \<rparr>
      else
        let totalSales = length salesData;
            totalRevenue = foldl (\<lambda>sum sale. num_add sum (total_sale sale)) (Fin 0) salesData;
            avgOrderValue = num_div totalRevenue (Fin (of_nat totalSales));
            productSales = tally productName salesData;
            topProduct = top_key productSales;
            categorySales = tally category salesData;
            topCategory = top_key categorySales
        in \<lparr> totalSales = totalSales, totalRevenue = totalRevenue,
             avgOrderValue = avgOrderValue, topProduct = topProduct,
             topCategory = topCategory \<rparr>)"

record chart_entry =
  name :: string
  sales :: "jsval option"

definition prepareChartData :: "sale list \<Rightarrow> chart_entry list" where
  "prepareChartData salesData =
     (let productSales = tally productName salesData
      in map (\<lambda>product. \<lparr> name = product, sales = obj_get productSales product \<rparr>)
           (Object_keys productSales))"

section \<open>Persistence\<close>

text \<open>
  Modelled from the spec: \<open>JSON.stringify\<close>, \<open>JSON.parse\<close> and \<open>localStorage\<close>, with
  which the two effects of the component save and load the collection, are functions of
  the platform and not part of the sources; they are modelled from their documentation.
  A \<open>jsdata\<close> is a value of the program as far as sale collections and parsed texts
  go; a \<open>json\<close> is a JSON text, represented by the document it spells. The literal
  that \<open>JSON.stringify\<close> writes for a finite number \<open>x\<close> is the shortest decimal
  that reads back as \<open>x\<close>, so \<open>JNum x\<close> stands for it and \<open>JSON.parse\<close> reads it
  as \<open>x\<close>; NaN and the infinities have no literal and are written \<open>null\<close>. The
  members of an object are written in the property order of its keys.
\<close>

datatype jsdata =
  VNull | VNumber number | VString string | VArray "jsdata list" | VObject "(string \<times> jsdata) list"

datatype json =
  JNull | JNum rat | JStr string | JArr "json list" | JObj "(string \<times> json) list"

definition in_property_order :: "(string \<times> 'a) list \<Rightarrow> (string \<times> 'a) list" where
  "in_property_order ps =
     sort_key (\<lambda>p. array_index (fst p)) (filter (\<lambda>p. is_array_index (fst p)) ps)
     @ filter (\<lambda>p. \<not> is_array_index (fst p)) ps"

fun JSON_stringify :: "jsdata \<Rightarrow> json" where
  "JSON_stringify VNull = JNull"
| "JSON_stringify (VNumber n) = (case n of Fin x \<Rightarrow> JNum x | Infinity s \<Rightarrow> JNull | NaN \<Rightarrow> JNull)"
| "JSON_stringify (VString s) = JStr s"
| "JSON_stringify (VArray vs) = JArr (map JSON_stringify vs)"
| "JSON_stringify (VObject ps) =
     JObj (in_property_order (map (\<lambda>p. (fst p, JSON_stringify (snd p))) ps))"

fun JSON_parse :: "json \<Rightarrow> jsdata" where
  "JSON_parse JNull = VNull"
| "JSON_parse (JNum x) = VNumber (Fin x)"
| "JSON_parse (JStr s) = VString s"
| "JSON_parse (JArr js) = VArray (map JSON_parse js)"
| "JSON_parse (JObj ms) = VObject (map (\<lambda>m. (fst m, JSON_parse (snd m))) ms)"

text \<open>
  A sale as a value: the object that \<open>handleSubmit\<close> builds, with its properties in
  the order of the object literal.
\<close>

definition sale_value :: "sale \<Rightarrow> jsdata" where
  "sale_value sale =
     VObject [(''id'', VNumber (Fin (of_int (id_sale sale)))),
              (''date'', VString (date sale)),
              (''productName'', VString (productName sale)),
              (''price'', VNumber (price sale)),
              (''quantity'', VNumber (Fin (of_int (quantity sale)))),
              (''category'', VString (category sale)),
              (''total'', VNumber (total_sale sale))]"

text \<open>
  \<open>localStorage\<close> maps the name of a slot to the text stored there. \<open>save\<close> is the
  effect \<open>localStorage.setItem('salesData', JSON.stringify(salesData))\<close>. \<open>load\<close> is
  the effect that reads the slot: with no text stored it leaves the state alone
  (\<open>None\<close>), otherwise it passes \<open>JSON.parse(savedSales)\<close> to \<open>setSalesData\<close>.
\<close>

type_synonym storage = "string \<Rightarrow> json option"

definition save :: "sale list \<Rightarrow> storage \<Rightarrow> storage" where
  "save salesData localStorage =
     localStorage(''salesData'' \<mapsto> JSON_stringify (VArray (map sale_value salesData)))"

definition load :: "storage \<Rightarrow> jsdata option" where
  "load localStorage =
     (case localStorage ''salesData'' of
        None \<Rightarrow> None
      | Some savedSales \<Rightarrow> Some (JSON_parse savedSales))"

section \<open>Notions used to state the properties\<close>

text \<open>
  A sequence of submissions: each one carries the clock reading, the date, the product
  name, the parsed price, the parsed quantity and the category of one call of
  \<open>handleSubmit\<close>. \<open>recorded\<close> is the collection reached from the empty one.
\<close>

type_synonym submission = "int \<times> string \<times> string \<times> number \<times> int \<times> string"

definition submit :: "sale list \<Rightarrow> submission \<Rightarrow> sale list" where
  "submit salesData =
     (\<lambda>(now, today, name, parsedPrice, parsedQuantity, cat).
        handleSubmit now today name parsedPrice parsedQuantity cat salesData)"

definition recorded :: "submission list \<Rightarrow> sale list" where
  "recorded subs = foldl submit [] subs"

text \<open>A plain name is one that \<open>Object.prototype\<close> does not define.\<close>

definition plain :: "string \<Rightarrow> bool" where
  "plain k = (inherited k = None)"

text \<open>The distinct elements of a list, each at the place of its first occurrence.\<close>

definition first_seen :: "string list \<Rightarrow> string list" where
  "first_seen ks = rev (remdups (rev ks))"

text \<open>The sum of \<open>quantity\<close> over the sales whose key (name or category) is \<open>k\<close>.\<close>

definition summed :: "(sale \<Rightarrow> string) \<Rightarrow> sale list \<Rightarrow> string \<Rightarrow> int" where
  "summed key salesData k = sum_list (map quantity (filter (\<lambda>sale. key sale = k) salesData))"

text \<open>
  The same sum as the program computes it: the quantities are added as numbers, from 0,
  in collection order. \<open>magnitude\<close> is the sum of their absolute values; while it
  is at most \<open>2^53\<close> no addition rounds.
\<close>

definition summed_number :: "(sale \<Rightarrow> string) \<Rightarrow> sale list \<Rightarrow> string \<Rightarrow> number" where
  "summed_number key salesData k =
     foldl (\<lambda>acc sale. num_add acc (Fin (of_int (quantity sale)))) (Fin 0)
       (filter (\<lambda>sale. key sale = k) salesData)"

definition magnitude :: "(sale \<Rightarrow> string) \<Rightarrow> sale list \<Rightarrow> string \<Rightarrow> int" where
  "magnitude key salesData k =
     sum_list (map (\<lambda>sale. \<bar>quantity sale\<bar>) (filter (\<lambda>sale. key sale = k) salesData))"

definition sums_exact :: "(sale \<Rightarrow> string) \<Rightarrow> sale list \<Rightarrow> bool" where
  "sums_exact key salesData =
     list_all (\<lambda>sale. magnitude key salesData (key sale) \<le> 2 ^ 53) salesData"

definition is_finite :: "number \<Rightarrow> bool" where
  "is_finite n = (case n of Fin x \<Rightarrow> True | Infinity s \<Rightarrow> False | NaN \<Rightarrow> False)"

text \<open>
  Among the keys whose summed quantity is the greatest: the one encountered first in
  the collection, and the one that comes last in the property order of the keys.
\<close>

definition first_greatest :: "(sale \<Rightarrow> string) \<Rightarrow> sale list \<Rightarrow> string" where
  "first_greatest key salesData =
     (let names = first_seen (map key salesData);
          m = Max (set (map (summed key salesData) names))
      in hd (filter (\<lambda>k. summed key salesData k = m) names))"

definition last_greatest :: "(sale \<Rightarrow> string) \<Rightarrow> sale list \<Rightarrow> string" where
  "last_greatest key salesData =
     (let names = property_order (first_seen (map key salesData));
          m = Max (set (map (summed key salesData) names))
      in last (filter (\<lambda>k. summed key salesData k = m) names))"

declare bit_length.simps [simp del]
declare digits.simps [simp del]

section \<open>Rounding to binary64\<close>

lemma bit_length_bounds:
  "0 < n \<Longrightarrow> 2 ^ (bit_length n - 1) \<le> n \<and> n < 2 ^ bit_length n"
proof (induction n rule: bit_length.induct)
  case (1 n)
  show ?case
  proof (cases "n div 2 \<le> 0")
    case True
    with \<open>0 < n\<close> have "n = 1" by linarith
    then show ?thesis by (simp add: bit_length.simps [of 1] bit_length.simps [of 0])
  next
    case False
    then have pos: "0 < n div 2" by simp
    with "1.IH" \<open>0 < n\<close>
    have ih: "2 ^ (bit_length (n div 2) - 1) \<le> n div 2" "n div 2 < 2 ^ bit_length (n div 2)"
      by simp_all
    have bl: "bit_length n = Suc (bit_length (n div 2))"
      using \<open>0 < n\<close> by (simp add: bit_length.simps [of n])
    have "0 < bit_length (n div 2)" using pos by (simp add: bit_length.simps [of "n div 2"])
    then have "(2::int) ^ bit_length (n div 2) = 2 * 2 ^ (bit_length (n div 2) - 1)"
      by (cases "bit_length (n div 2)") simp_all
    with ih show ?thesis unfolding bl by (simp, linarith)
  qed
qed

lemma ilog2_bounds:
  assumes "0 < x"
  shows "2 powi ilog2 x \<le> x \<and> x < 2 powi (ilog2 x + 1)"
proof -
  obtain p q where pq: "quotient_of x = (p, q)" by (cases "quotient_of x")
  then have q: "0 < q" and x: "x = of_int p / of_int q"
    by (simp_all add: quotient_of_denom_pos quotient_of_div)
  with assms have p: "0 < p" by (simp add: zero_less_divide_iff)
  define a b where "a = bit_length p" and "b = bit_length q"
  have pa: "2 ^ (a - 1) \<le> p" "p < 2 ^ a" and qb: "2 ^ (b - 1) \<le> q" "q < 2 ^ b"
    using bit_length_bounds [OF p] bit_length_bounds [OF q] by (simp_all add: a_def b_def)
  have a0: "0 < a" and b0: "0 < b"
    using p q by (simp_all add: a_def b_def bit_length.simps [of p] bit_length.simps [of q])
  have rp: "(2::rat) ^ (a - 1) \<le> of_int p" "of_int p < (2::rat) ^ a"
    using pa of_int_le_iff [of "2 ^ (a - 1)" p, where ?'a = rat]
      of_int_less_iff [of p "2 ^ a", where ?'a = rat] by simp_all
  have rq: "(2::rat) ^ (b - 1) \<le> of_int q" "of_int q < (2::rat) ^ b"
    using qb of_int_le_iff [of "2 ^ (b - 1)" q, where ?'a = rat]
      of_int_less_iff [of q "2 ^ b", where ?'a = rat] by simp_all
  have "x < 2 ^ a / 2 ^ (b - 1)"
    unfolding x using rp rq p by (intro frac_less) simp_all
  also have "(2::rat) ^ a / 2 ^ (b - 1) = 2 powi (int a - int (b - 1))"
    by (simp add: power_int_diff)
  finally have up: "x < 2 powi (int a - int b + 1)"
    using b0 by (simp add: of_nat_diff algebra_simps)
  have "(2::rat) powi (int (a - 1) - int b) = 2 ^ (a - 1) / 2 ^ b"
    by (simp add: power_int_diff)
  also have "\<dots> \<le> x"
    unfolding x using rp rq p q by (intro frac_le) simp_all
  finally have lo: "2 powi (int a - int b - 1) \<le> x"
    using a0 by (simp add: of_nat_diff algebra_simps)
  show ?thesis
    using up lo by (auto simp: ilog2_def pq a_def b_def Let_def not_le)
qed

lemma ilog2_unique:
  assumes "0 < x" "2 powi e \<le> x" "x < 2 powi (e + 1)"
  shows "ilog2 x = e"
proof (rule ccontr)
  assume ne: "ilog2 x \<noteq> e"
  note b = ilog2_bounds [OF assms(1)]
  show False
  proof (cases "ilog2 x < e")
    case True
    then have "(2::rat) powi (ilog2 x + 1) \<le> 2 powi e"
      by (intro power_int_increasing) simp_all
    with b assms show False by linarith
  next
    case False
    with ne have "(2::rat) powi (e + 1) \<le> 2 powi ilog2 x"
      by (intro power_int_increasing) simp_all
    with b assms show False by linarith
  qed
qed

lemma floor_numeral_div:
  "\<lfloor>numeral a / numeral b :: rat\<rfloor> = numeral a div numeral b"
  by (metis floor_divide_of_int_eq of_int_numeral)

lemma fl_eqI:
  assumes "0 < x" "2 powi e \<le> x" "x < 2 powi (e + 1)" "- 1022 \<le> e"
    and "round_half_even (x / 2 powi (e - 52)) = m"
    and "rat_of_int m * 2 powi (e - 52) < 2 ^ 1024"
  shows "fl x = Fin (of_int m * 2 powi (e - 52))"
proof -
  have "ilog2 \<bar>x\<bar> = e"
    using assms(1-3) by (intro ilog2_unique) simp_all
  then show ?thesis
    using assms by (simp add: fl_def Let_def max_def)
qed

text \<open>An integer of magnitude up to \<open>2^53\<close> is a binary64 value: rounding leaves it as it is.\<close>

lemma round_half_even_of_int: "round_half_even (of_int k) = k"
  by (simp add: round_half_even_def Let_def)

lemma fl_of_int:
  assumes "\<bar>n\<bar> \<le> 2 ^ 53"
  shows "fl (of_int n) = Fin (of_int n)"
proof (cases "n = 0")
  case True
  then show ?thesis by (simp add: fl_def)
next
  case False
  define a :: rat where "a = \<bar>of_int n\<bar>"
  define e where "e = ilog2 a"
  have "1 \<le> \<bar>n\<bar>" using False by simp
  then have "(1::rat) \<le> of_int \<bar>n\<bar>" by (simp only: of_int_1_le_iff)
  then have a1: "1 \<le> a" by (simp add: a_def)
  have a53: "a \<le> 2 ^ 53"
    using assms of_int_le_iff [of "\<bar>n\<bar>" "2 ^ 53", where ?'a = rat] by (simp add: a_def)
  have b: "2 powi e \<le> a" "a < 2 powi (e + 1)"
    using ilog2_bounds [of a] a1 by (simp_all add: e_def)
  have e0: "0 \<le> e"
  proof (rule ccontr)
    assume "\<not> 0 \<le> e"
    then have "(2::rat) powi (e + 1) \<le> 2 powi 0" by (intro power_int_increasing) simp_all
    with b(2) a1 show False by simp
  qed
  have e53: "e \<le> 53"
  proof (rule ccontr)
    assume "\<not> e \<le> 53"
    then have "(2::rat) powi 54 \<le> 2 powi e" by (intro power_int_increasing) simp_all
    with b(1) a53 show False by simp
  qed
  have "\<exists>k. a / 2 powi (e - 52) = of_int k"
  proof (cases "e \<le> 52")
    case True
    then have "(2::rat) powi (e - 52) = 1 / 2 ^ nat (52 - e)"
      using power_int_minus_divide [of "2::rat" "52 - e"] by (simp add: power_int_def)
    then have "a / 2 powi (e - 52) = of_int (\<bar>n\<bar> * 2 ^ nat (52 - e))"
      by (simp add: a_def)
    then show ?thesis ..
  next
    case False
    with e53 have e: "e = 53" by simp
    with b(1) a53 have "a = 2 ^ 53" by simp
    then have "a / 2 powi (e - 52) = of_int (2 ^ 52)" by (simp add: e)
    then show ?thesis ..
  qed
  then obtain k where k: "a / 2 powi (e - 52) = of_int k" ..
  have u: "(2::rat) powi (e - 52) \<noteq> 0" by simp
  have y: "of_int k * 2 powi (e - 52) = a"
    using k u by (metis nonzero_divide_eq_eq)
  have "\<not> 2 ^ 1024 \<le> a" using a53 by simp
  moreover have "sgn (rat_of_int n) * a = of_int n"
    unfolding a_def by (simp only: sgn_mult_abs)
  ultimately show ?thesis
    using False e0
    by (simp add: fl_def Let_def max_def a_def [symmetric] e_def [symmetric] k
        round_half_even_of_int y)
qed

section \<open>Deleting a sale\<close>

text \<open>
  Claim C4. \<open>deleteSale i\<close> keeps the records whose id differs from \<open>i\<close>, in
  their order, and nothing else: when one record has the id \<open>i\<close> and no other has,
  exactly that record goes and the records before and after it stay as they are; when
  no record has the id \<open>i\<close>, the collection is unchanged.
\<close>

theorem deleteSale_removes:
  "deleteSale i salesData = [s \<leftarrow> salesData. id_sale s \<noteq> i]
   \<and> (id_sale r = i \<and> (\<forall>s \<in> set (before @ after). id_sale s \<noteq> i)
        \<longrightarrow> deleteSale i (before @ r # after) = before @ after)
   \<and> ((\<forall>s \<in> set salesData. id_sale s \<noteq> i) \<longrightarrow> deleteSale i salesData = salesData)"
  by (auto simp: deleteSale_def filter_id_conv)

theorem deleteSale_removes_witness:
  "deleteSale 2 [newSale 1 ''2024-05-01'' ''tea'' (Fin 2) 1 ''drinks'',
                 newSale 2 ''2024-05-01'' ''bun'' (Fin 1) 4 ''food'',
                 newSale 3 ''2024-05-02'' ''tea'' (Fin 2) 2 ''drinks'']
     = [newSale 1 ''2024-05-01'' ''tea'' (Fin 2) 1 ''drinks'',
        newSale 3 ''2024-05-02'' ''tea'' (Fin 2) 2 ''drinks'']
   \<and> deleteSale 7 [newSale 1 ''2024-05-01'' ''tea'' (Fin 2) 1 ''drinks'',
                   newSale 2 ''2024-05-01'' ''bun'' (Fin 1) 4 ''food'']
     = [newSale 1 ''2024-05-01'' ''tea'' (Fin 2) 1 ''drinks'',
        newSale 2 ''2024-05-01'' ''bun'' (Fin 1) 4 ''food'']"
  using deleteSale_removes [where i = 2 and r = "newSale 2 ''2024-05-01'' ''bun'' (Fin 1) 4 ''food''"
      and before = "[newSale 1 ''2024-05-01'' ''tea'' (Fin 2) 1 ''drinks'']"
      and after = "[newSale 3 ''2024-05-02'' ''tea'' (Fin 2) 2 ''drinks'']"
      and salesData = "[]"]
    deleteSale_removes [where i = 7 and r = "newSale 2 ''2024-05-01'' ''bun'' (Fin 1) 4 ''food''"
      and before = "[]" and after = "[]"
      and salesData = "[newSale 1 ''2024-05-01'' ''tea'' (Fin 2) 1 ''drinks'',
                        newSale 2 ''2024-05-01'' ''bun'' (Fin 1) 4 ''food'']"]
  by (simp add: newSale_def)

section \<open>Recording a sale\<close>

text \<open>
  Claim C5. \<open>handleSubmit\<close> appends one record to the collection and leaves the
  records already there, and their order, as they are. The new record carries the
  submitted fields, and its \<open>total\<close> is the product of its \<open>price\<close> and its
  \<open>quantity\<close>.
\<close>

theorem handleSubmit_appends:
  "\<exists>r. handleSubmit now today n p q c salesData = salesData @ [r]
       \<and> total_sale r = num_mul (price r) (Fin (of_int (quantity r)))
       \<and> id_sale r = now \<and> date r = today \<and> productName r = n \<and> category r = c
       \<and> price r = p \<and> quantity r = q"
  by (simp add: handleSubmit_def newSale_def)

section \<open>Identifiers\<close>

lemma ids_recorded: "map id_sale (recorded subs) = map fst subs"
proof (induction subs rule: rev_induct)
  case Nil
  show ?case by (simp add: recorded_def)
next
  case (snoc x subs)
  then show ?case
    by (cases x) (simp add: recorded_def submit_def handleSubmit_def newSale_def)
qed

text \<open>
  The id of a record is the clock reading of its submission. Two submissions at the same
  reading give two records with one id, and a submission made after the clock was set
  back gets a smaller id than the record before it.
\<close>

theorem recorded_ids_counterexample:
  "\<not> distinct (map id_sale (recorded [(1714550000000, ''2024-05-01'', ''tea'', Fin 2, 1, ''drinks''),
                          (1714550000000, ''2024-05-01'', ''bun'', Fin 1, 4, ''food'')]))
   \<and> \<not> sorted (map id_sale (recorded [(1714550004000, ''2024-05-01'', ''tea'', Fin 2, 1, ''drinks''),
                          (1714550001000, ''2024-05-01'', ''bun'', Fin 1, 4, ''food'')]))"
  by (simp add: recorded_def submit_def handleSubmit_def newSale_def)

text \<open>
  Claim C6, as the code has it. When the clock reading of each submission is greater
  than those of the submissions before it, the ids of the recorded collection are
  pairwise distinct and increase in insertion order.
\<close>

theorem recorded_ids:
  "sorted_wrt (<) (map fst subs) \<Longrightarrow>
   distinct (map id_sale (recorded subs)) \<and> sorted_wrt (<) (map id_sale (recorded subs))"
  by (simp add: ids_recorded strict_sorted_iff)

theorem recorded_ids_witness:
  "map id_sale (recorded [(1714550000000, ''2024-05-01'', ''tea'', Fin 2, 1, ''drinks''),
                          (1714550000001, ''2024-05-01'', ''bun'', Fin 1, 4, ''food'')])
     = [1714550000000, 1714550000001]
   \<and> distinct (map id_sale (recorded [(1714550000000, ''2024-05-01'', ''tea'', Fin 2, 1, ''drinks''),
                          (1714550000001, ''2024-05-01'', ''bun'', Fin 1, 4, ''food'')]))"
  using recorded_ids [of "[(1714550000000, ''2024-05-01'', ''tea'', Fin 2, 1, ''drinks''),
                          (1714550000001, ''2024-05-01'', ''bun'', Fin 1, 4, ''food'')]"]
  by (simp add: recorded_def submit_def handleSubmit_def newSale_def)

section \<open>Totals\<close>

text \<open>
  Claim C2. \<open>totalSales\<close> is the number of records; \<open>totalRevenue\<close> is the sum of
  the \<open>total\<close> fields, added from 0 in collection order; when there is a sale,
  \<open>avgOrderValue\<close> is \<open>totalRevenue / totalSales\<close>; on the empty collection the
  revenue and the average are 0, and nothing is divided.
\<close>

theorem calculateKPIs_totals:
  "totalSales (calculateKPIs salesData) = length salesData
   \<and> totalRevenue (calculateKPIs salesData) = foldl num_add (Fin 0) (map total_sale salesData)
   \<and> (0 < totalSales (calculateKPIs salesData) \<longrightarrow>
        avgOrderValue (calculateKPIs salesData)
          = num_div (totalRevenue (calculateKPIs salesData))
              (Fin (of_nat (totalSales (calculateKPIs salesData)))))
   \<and> (salesData = [] \<longrightarrow>
        totalRevenue (calculateKPIs salesData) = Fin 0
        \<and> avgOrderValue (calculateKPIs salesData) = Fin 0)"
  by (simp add: calculateKPIs_def Let_def foldl_map)

lemma fl_small: "fl 2 = Fin 2" "fl 3 = Fin 3" "fl 4 = Fin 4" "fl 6 = Fin 6"
  using fl_of_int [of 2] fl_of_int [of 3] fl_of_int [of 4] fl_of_int [of 6]
  by simp_all

theorem calculateKPIs_totals_witness:
  "totalSales (calculateKPIs [newSale 1 ''2024-05-01'' ''tea'' (Fin 2) 1 ''drinks'',
                              newSale 2 ''2024-05-01'' ''bun'' (Fin 1) 4 ''food'']) = 2
   \<and> totalRevenue (calculateKPIs [newSale 1 ''2024-05-01'' ''tea'' (Fin 2) 1 ''drinks'',
                              newSale 2 ''2024-05-01'' ''bun'' (Fin 1) 4 ''food'']) = Fin 6
   \<and> avgOrderValue (calculateKPIs [newSale 1 ''2024-05-01'' ''tea'' (Fin 2) 1 ''drinks'',
                              newSale 2 ''2024-05-01'' ''bun'' (Fin 1) 4 ''food'']) = Fin 3
   \<and> totalRevenue (calculateKPIs []) = Fin 0
   \<and> avgOrderValue (calculateKPIs []) = Fin 0"
  using calculateKPIs_totals [of "[newSale 1 ''2024-05-01'' ''tea'' (Fin 2) 1 ''drinks'',
                              newSale 2 ''2024-05-01'' ''bun'' (Fin 1) 4 ''food'']"]
    calculateKPIs_totals [of "[]"]
  by (simp add: newSale_def fl_small)

section \<open>The empty collection\<close>

text \<open>
  Claim C8. On the empty collection \<open>calculateKPIs\<close> returns the record of defaults:
  no sale, revenue 0, average 0, and the text \<open>None\<close> for both top entries.
\<close>

theorem calculateKPIs_empty:
  "calculateKPIs [] =
     \<lparr> totalSales = 0, totalRevenue = Fin 0, avgOrderValue = Fin 0,
       topProduct = ''None'', topCategory = ''None'' \<rparr>"
  by (simp add: calculateKPIs_def)

section \<open>The tally of quantities\<close>

lemma first_seen_snoc:
  "first_seen (ks @ [k]) = (if k \<in> set ks then first_seen ks else first_seen ks @ [k])"
  by (simp add: first_seen_def)

lemma set_first_seen [simp]: "set (first_seen ks) = set ks"
  by (simp add: first_seen_def)

lemma distinct_first_seen [simp]: "distinct (first_seen ks)"
  by (simp add: first_seen_def)

lemma summed_snoc:
  "summed key (salesData @ [s]) k
     = summed key salesData k + (if key s = k then quantity s else 0)"
  by (simp add: summed_def)

lemma magnitude_snoc:
  "magnitude key (salesData @ [s]) k
     = magnitude key salesData k + (if key s = k then \<bar>quantity s\<bar> else 0)"
  by (simp add: magnitude_def)

lemma magnitude_nonneg: "0 \<le> magnitude key salesData k"
  by (induction salesData rule: rev_induct) (simp_all add: magnitude_snoc, simp add: magnitude_def)

lemma abs_summed_le: "\<bar>summed key salesData k\<bar> \<le> magnitude key salesData k"
proof (induction salesData rule: rev_induct)
  case Nil
  show ?case by (simp add: summed_def magnitude_def)
next
  case (snoc s salesData)
  then show ?case
    using abs_triangle_ineq [of "summed key salesData k" "quantity s"]
    by (auto simp: summed_snoc magnitude_snoc)
qed

lemma summed_number_snoc:
  "summed_number key (salesData @ [s]) k
     = (if key s = k then num_add (summed_number key salesData k) (Fin (of_int (quantity s)))
        else summed_number key salesData k)"
  by (simp add: summed_number_def)

lemma filter_absent:
  "k \<notin> key ` set salesData \<Longrightarrow> filter (\<lambda>sale. key sale = k) salesData = []"
  by (auto simp: filter_empty_conv)

lemma summed_number_absent:
  "k \<notin> key ` set salesData \<Longrightarrow> summed_number key salesData k = Fin 0"
  by (simp add: summed_number_def filter_absent)

lemma fl_not_NaN: "fl x \<noteq> NaN"
  by (simp add: fl_def Let_def)

lemma num_add_not_NaN: "a \<noteq> NaN \<Longrightarrow> num_add a (Fin b) \<noteq> NaN"
  by (cases a) (simp_all add: fl_not_NaN)

lemma summed_number_not_NaN: "summed_number key salesData k \<noteq> NaN"
proof (induction salesData rule: rev_induct)
  case Nil
  show ?case by (simp add: summed_number_def)
next
  case (snoc s salesData)
  then show ?case by (simp add: summed_number_snoc num_add_not_NaN)
qed

text \<open>While the magnitude stays within \<open>2^53\<close>, the sum of numbers is the sum of integers.\<close>

lemma summed_number_exact:
  "magnitude key salesData k \<le> 2 ^ 53 \<Longrightarrow>
   summed_number key salesData k = Fin (of_int (summed key salesData k))"
proof (induction salesData rule: rev_induct)
  case Nil
  show ?case by (simp add: summed_number_def summed_def)
next
  case (snoc s salesData)
  show ?case
  proof (cases "key s = k")
    case True
    with snoc.prems have m: "magnitude key salesData k + \<bar>quantity s\<bar> \<le> 2 ^ 53"
      by (simp add: magnitude_snoc)
    then have "magnitude key salesData k \<le> 2 ^ 53" by linarith
    then have ih: "summed_number key salesData k = Fin (of_int (summed key salesData k))"
      by (rule snoc.IH)
    have "\<bar>summed key salesData k + quantity s\<bar> \<le> 2 ^ 53"
      using abs_summed_le [of key salesData k] m by linarith
    then have "fl (of_int (summed key salesData k + quantity s))
                 = Fin (of_int (summed key salesData k + quantity s))"
      by (rule fl_of_int)
    then show ?thesis
      using True by (simp add: summed_number_snoc summed_snoc ih)
  next
    case False
    with snoc show ?thesis
      by (simp add: summed_number_snoc summed_snoc magnitude_snoc)
  qed
qed

lemma tally_snoc:
  "tally key (salesData @ [s])
     = obj_set (tally key salesData) (key s)
         (plus_number (or_zero (obj_get (tally key salesData) (key s))) (quantity s))"
  by (simp add: tally_def)

lemma inherited_proto: "inherited k = None \<Longrightarrow> k \<noteq> ''__proto__''"
  by (auto simp: inherited_def)

lemma tally_lookup:
  "\<forall>s \<in> set salesData. inherited (key s) = None \<Longrightarrow>
   map_of (tally key salesData) k
     = (if k \<in> key ` set salesData then Some (Num (summed_number key salesData k)) else None)"
proof (induction salesData arbitrary: k rule: rev_induct)
  case Nil
  then show ?case by (simp add: tally_def)
next
  case (snoc s salesData)
  then have ih: "\<And>k. map_of (tally key salesData) k
     = (if k \<in> key ` set salesData then Some (Num (summed_number key salesData k)) else None)"
    and plain: "inherited (key s) = None"
    by simp_all
  have get: "obj_get (tally key salesData) (key s) = map_of (tally key salesData) (key s)"
    by (simp add: obj_get_def plain split: option.splits)
  have new: "plus_number (or_zero (obj_get (tally key salesData) (key s))) (quantity s)
               = Num (summed_number key (salesData @ [s]) (key s))"
    by (simp add: get ih summed_number_snoc summed_number_absent summed_number_not_NaN)
  show ?case
    using inherited_proto [OF plain]
    by (auto simp: tally_snoc obj_set_def new ih update_conv' summed_number_snoc)
qed

lemma tally_keys:
  "\<forall>s \<in> set salesData. key s \<noteq> ''__proto__'' \<Longrightarrow>
   map fst (tally key salesData) = first_seen (map key salesData)"
proof (induction salesData rule: rev_induct)
  case Nil
  then show ?case by (simp add: tally_def first_seen_def)
next
  case (snoc s salesData)
  then show ?case
    by (simp add: tally_snoc obj_set_def update_keys first_seen_snoc)
qed

lemma property_order_id:
  "\<forall>k \<in> set ks. \<not> is_array_index k \<Longrightarrow> property_order ks = ks"
  by (simp add: property_order_def filter_id_conv filter_empty_conv)

lemma set_property_order [simp]: "set (property_order ks) = set ks"
  by (auto simp: property_order_def)

lemma distinct_property_order: "distinct ks \<Longrightarrow> distinct (property_order ks)"
  by (auto simp: property_order_def)

lemma top_fold:
  fixes f :: "string \<Rightarrow> jsval option" and v :: "string \<Rightarrow> int"
    and a :: string and ks :: "string list"
  assumes vals: "\<forall>k \<in> set ks. f k = Some (Num (Fin (of_int (v k))))"
    and fa: "f a = None \<or> (\<exists>va. f a = Some (Num (Fin (of_int va))))"
  defines "r \<equiv> foldl (\<lambda>a b. if greater_than (f a) (f b) then a else b) a ks"
  shows "(r = a \<and> (ks = [] \<or> (\<exists>va. f a = Some (Num (Fin (of_int va))) \<and> (\<forall>k \<in> set ks. v k < va))))
       \<or> (\<exists>us vs. ks = us @ r # vs \<and> (\<forall>k \<in> set us. v k \<le> v r) \<and> (\<forall>k \<in> set vs. v k < v r))"
  using vals unfolding r_def
proof (induction ks rule: rev_induct)
  case Nil
  then show ?case by simp
next
  case (snoc k ks)
  define r' where "r' = foldl (\<lambda>a b. if greater_than (f a) (f b) then a else b) a ks"
  have fk: "f k = Some (Num (Fin (of_int (v k))))" using snoc.prems by simp
  have vals': "\<forall>k \<in> set ks. f k = Some (Num (Fin (of_int (v k))))" using snoc.prems by simp
  have step: "foldl (\<lambda>a b. if greater_than (f a) (f b) then a else b) a (ks @ [k])
                = (if greater_than (f r') (f k) then r' else k)"
    by (simp add: r'_def)
  have ih:
    "(r' = a \<and> (ks = [] \<or> (\<exists>va. f a = Some (Num (Fin (of_int va))) \<and> (\<forall>k \<in> set ks. v k < va))))
       \<or> (\<exists>us vs. ks = us @ r' # vs \<and> (\<forall>k \<in> set us. v k \<le> v r') \<and> (\<forall>k \<in> set vs. v k < v r'))"
    unfolding r'_def by (rule snoc.IH [OF vals'])
  show ?case
  proof (cases "greater_than (f r') (f k)")
    case True
    from ih show ?thesis
    proof
      assume l: "r' = a \<and> (ks = [] \<or> (\<exists>va. f a = Some (Num (Fin (of_int va))) \<and> (\<forall>k \<in> set ks. v k < va)))"
      with True fk fa obtain m where m: "f a = Some (Num (Fin (of_int m)))" "v k < m"
        by auto
      with l have "\<forall>j \<in> set ks. v j < m" by auto
      then have "\<forall>j \<in> set (ks @ [k]). v j < m" using m by simp
      then have "\<exists>va. f a = Some (Num (Fin (of_int va))) \<and> (\<forall>j \<in> set (ks @ [k]). v j < va)"
        using m by blast
      then show ?thesis unfolding step using True l by simp
    next
      assume "\<exists>us vs. ks = us @ r' # vs \<and> (\<forall>k \<in> set us. v k \<le> v r') \<and> (\<forall>k \<in> set vs. v k < v r')"
      then obtain us vs where d: "ks = us @ r' # vs" "\<forall>k \<in> set us. v k \<le> v r'" "\<forall>k \<in> set vs. v k < v r'"
        by blast
      then have "f r' = Some (Num (Fin (of_int (v r'))))" using vals' by simp
      with True fk have "v k < v r'" by simp
      with d have "ks @ [k] = us @ r' # (vs @ [k]) \<and> (\<forall>k \<in> set us. v k \<le> v r')
                     \<and> (\<forall>k \<in> set (vs @ [k]). v k < v r')"
        by simp
      then have "\<exists>us vs. ks @ [k] = us @ r' # vs \<and> (\<forall>k \<in> set us. v k \<le> v r')
                     \<and> (\<forall>k \<in> set vs. v k < v r')"
        by (intro exI)
      then show ?thesis unfolding step using True by simp
    qed
  next
    case False
    have "\<forall>j \<in> set ks. v j \<le> v k"
      using ih
    proof
      assume l: "r' = a \<and> (ks = [] \<or> (\<exists>va. f a = Some (Num (Fin (of_int va))) \<and> (\<forall>k \<in> set ks. v k < va)))"
      show ?thesis
      proof (cases "ks = []")
        case True then show ?thesis by simp
      next
        case ne: False
        with l obtain va where va: "f a = Some (Num (Fin (of_int va)))" "\<forall>k \<in> set ks. v k < va"
          by blast
        with False l fk have "va \<le> v k" by simp
        with va(2) show ?thesis by fastforce
      qed
    next
      assume "\<exists>us vs. ks = us @ r' # vs \<and> (\<forall>k \<in> set us. v k \<le> v r') \<and> (\<forall>k \<in> set vs. v k < v r')"
      then obtain us vs where d: "ks = us @ r' # vs" "\<forall>k \<in> set us. v k \<le> v r'" "\<forall>k \<in> set vs. v k < v r'"
        by blast
      then have "f r' = Some (Num (Fin (of_int (v r'))))" using vals' by simp
      with False fk have le: "v r' \<le> v k" by simp
      show ?thesis
      proof
        fix j assume "j \<in> set ks"
        then have "j \<in> set us \<or> j = r' \<or> j \<in> set vs" unfolding d(1) by auto
        with d(2,3) le show "v j \<le> v k" by fastforce
      qed
    qed
    then have "ks @ [k] = ks @ k # [] \<and> (\<forall>j \<in> set ks. v j \<le> v k) \<and> (\<forall>j \<in> set []. v j < v k)"
      by simp
    then have "\<exists>us vs. ks @ [k] = us @ k # vs \<and> (\<forall>j \<in> set us. v j \<le> v k) \<and> (\<forall>j \<in> set vs. v j < v k)"
      by (intro exI)
    then show ?thesis unfolding step using False by simp
  qed
qed

lemma plain_keys:
  assumes "\<forall>s \<in> set salesData. plain (key s)"
  shows "Object_keys (tally key salesData) = property_order (first_seen (map key salesData))"
proof -
  have "\<forall>s \<in> set salesData. key s \<noteq> ''__proto__''"
    using assms by (auto simp: plain_def dest: inherited_proto)
  then have "map fst (tally key salesData) = first_seen (map key salesData)"
    by (rule tally_keys)
  then show ?thesis by (simp add: Object_keys_def)
qed

lemma plain_get:
  assumes "\<forall>s \<in> set salesData. plain (key s)" and "k \<in> key ` set salesData"
  shows "obj_get (tally key salesData) k = Some (Num (summed_number key salesData k))"
proof -
  have "\<forall>s \<in> set salesData. inherited (key s) = None"
    using assms(1) by (simp add: plain_def)
  from tally_lookup [OF this, of k] assms(2) show ?thesis
    by (simp add: obj_get_def)
qed

lemma sums_exact_iff:
  "sums_exact key salesData \<longleftrightarrow> (\<forall>k \<in> key ` set salesData. magnitude key salesData k \<le> 2 ^ 53)"
  by (auto simp: sums_exact_def list_all_iff)

lemma last_of_greatest:
  fixes v :: "string \<Rightarrow> int"
  assumes "ks = us @ r # vs" "\<forall>k \<in> set us. v k \<le> v r" "\<forall>k \<in> set vs. v k < v r"
  shows "last (filter (\<lambda>k. v k = Max (set (map v ks))) ks) = r"
proof -
  have "Max (set (map v ks)) = v r"
  proof (rule Max_eqI)
    show "finite (set (map v ks))" by simp
    show "v r \<in> set (map v ks)" using assms(1) by simp
    fix y assume "y \<in> set (map v ks)"
    then obtain k where "k \<in> set ks" "y = v k" by auto
    then have "k \<in> set us \<or> k = r \<or> k \<in> set vs" using assms(1) by auto
    with assms(2,3) \<open>y = v k\<close> show "y \<le> v r" by fastforce
  qed
  moreover have "filter (\<lambda>k. v k = v r) vs = []"
    using assms(3) by (auto simp: filter_empty_conv)
  ultimately show ?thesis by (simp add: assms(1))
qed

lemma inherited_None: "inherited ''None'' = None"
  by (simp add: inherited_def Object_prototype_def)

lemma top_tally:
  assumes ne: "salesData \<noteq> []" and ord: "\<forall>s \<in> set salesData. plain (key s)"
    and exact: "sums_exact key salesData"
  shows "top_key (tally key salesData) = last_greatest key salesData"
proof -
  define obj where "obj = tally key salesData"
  define ks where "ks = property_order (first_seen (map key salesData))"
  define r where
    "r = foldl (\<lambda>a b. if greater_than (obj_get obj a) (obj_get obj b) then a else b) ''None'' ks"
  have keys: "Object_keys obj = ks"
    unfolding obj_def ks_def by (rule plain_keys [OF ord])
  have set_ks: "set ks = key ` set salesData" by (simp add: ks_def)
  have vals: "\<forall>k \<in> set ks. obj_get obj k = Some (Num (Fin (of_int (summed key salesData k))))"
    unfolding obj_def set_ks
    using plain_get [OF ord] exact by (simp add: sums_exact_iff summed_number_exact)
  have ks_ne: "ks \<noteq> []" using ne set_ks by (metis empty_is_image set_empty)
  have top_r: "top_key obj = r" by (simp add: top_key_def keys r_def)
  have none: "obj_get obj ''None'' = None" if "''None'' \<notin> set ks"
  proof -
    from that have "map_of obj ''None'' = None"
      unfolding obj_def set_ks using tally_lookup [of salesData key "''None''"] ord
      by (simp add: plain_def)
    then show ?thesis by (simp add: obj_get_def inherited_None)
  qed
  have fa: "obj_get obj ''None'' = None
            \<or> (\<exists>va. obj_get obj ''None'' = Some (Num (Fin (of_int va))))"
    using none vals by blast
  from top_fold [OF vals fa]
  have "(r = ''None'' \<and> (ks = [] \<or> (\<exists>va. obj_get obj ''None'' = Some (Num (Fin (of_int va)))
            \<and> (\<forall>k \<in> set ks. summed key salesData k < va))))
       \<or> (\<exists>us vs. ks = us @ r # vs \<and> (\<forall>k \<in> set us. summed key salesData k \<le> summed key salesData r)
            \<and> (\<forall>k \<in> set vs. summed key salesData k < summed key salesData r))"
    unfolding r_def .
  then have "\<exists>us vs. ks = us @ r # vs \<and> (\<forall>k \<in> set us. summed key salesData k \<le> summed key salesData r)
            \<and> (\<forall>k \<in> set vs. summed key salesData k < summed key salesData r)"
  proof
    assume l: "r = ''None'' \<and> (ks = [] \<or> (\<exists>va. obj_get obj ''None'' = Some (Num (Fin (of_int va)))
            \<and> (\<forall>k \<in> set ks. summed key salesData k < va)))"
    with ks_ne obtain va where va: "obj_get obj ''None'' = Some (Num (Fin (of_int va)))"
      "\<forall>k \<in> set ks. summed key salesData k < va" by blast
    have "''None'' \<in> set ks" using none va(1) by auto
    with vals va show ?thesis by fastforce
  qed
  then obtain us vs where "ks = us @ r # vs"
    "\<forall>k \<in> set us. summed key salesData k \<le> summed key salesData r"
    "\<forall>k \<in> set vs. summed key salesData k < summed key salesData r" by blast
  from last_of_greatest [OF this] show ?thesis
    unfolding obj_def [symmetric] by (simp add: top_r last_greatest_def Let_def ks_def)
qed

section \<open>Top product and top category\<close>

text \<open>
  Claim C1, as the code has it. For a non-empty collection whose product names are plain
  and whose quantities add up, name by name, to at most \<open>2^53\<close> in magnitude,
  \<open>topProduct\<close> is the product name with the greatest summed quantity; when several
  names tie for the greatest, the one that comes last among them in the property order
  of the names is returned, which for names that are no array indices is the one
  encountered last. The same holds of \<open>topCategory\<close> and the categories.
\<close>

theorem calculateKPIs_top:
  assumes "salesData \<noteq> []"
  shows "((\<forall>s \<in> set salesData. plain (productName s)) \<and> sums_exact productName salesData \<longrightarrow>
            topProduct (calculateKPIs salesData) = last_greatest productName salesData)
       \<and> ((\<forall>s \<in> set salesData. plain (category s)) \<and> sums_exact category salesData \<longrightarrow>
            topCategory (calculateKPIs salesData) = last_greatest category salesData)"
  using assms by (simp add: calculateKPIs_def Let_def top_tally)

lemma plain_examples:
  "plain ''A''" "plain ''B''" "plain ''x''" "plain ''tea''" "plain ''bun''" "plain ''501''"
  by (simp_all add: plain_def inherited_def Object_prototype_def)

lemma fl_numeral: "(numeral n :: int) \<le> 2 ^ 53 \<Longrightarrow> fl (numeral n) = Fin (numeral n)"
  using fl_of_int [of "numeral n"] by simp

lemma fl_one: "fl 1 = Fin 1"
  using fl_of_int [of 1] by simp

theorem calculateKPIs_top_witness:
  "topProduct (calculateKPIs [newSale 1 ''2024-05-01'' ''A'' (Fin 1) 1 ''x'',
                              newSale 2 ''2024-05-01'' ''B'' (Fin 1) 1 ''x'']) = ''B''
   \<and> topCategory (calculateKPIs [newSale 1 ''2024-05-01'' ''A'' (Fin 1) 1 ''x'',
                              newSale 2 ''2024-05-01'' ''B'' (Fin 1) 1 ''x'']) = ''x''
   \<and> topProduct (calculateKPIs [newSale 1 ''2024-05-01'' ''tea'' (Fin 1) 2 ''x'',
                              newSale 2 ''2024-05-01'' ''501'' (Fin 1) 2 ''x'']) = ''tea''"
  using calculateKPIs_top [of "[newSale 1 ''2024-05-01'' ''A'' (Fin 1) 1 ''x'',
                              newSale 2 ''2024-05-01'' ''B'' (Fin 1) 1 ''x'']"]
    calculateKPIs_top [of "[newSale 1 ''2024-05-01'' ''tea'' (Fin 1) 2 ''x'',
                              newSale 2 ''2024-05-01'' ''501'' (Fin 1) 2 ''x'']"]
  by (simp add: newSale_def plain_examples last_greatest_def first_seen_def summed_def
      sums_exact_def magnitude_def property_order_def is_array_index_def array_index_def)

text \<open>
  With two names at the same summed quantity the reduction keeps the later one: its
  test \<open>obj[a] > obj[b]\<close> is false on a tie, and \<open>b\<close> is returned.
\<close>

theorem calculateKPIs_tie_counterexample:
  "topProduct (calculateKPIs [newSale 1 ''2024-05-01'' ''A'' (Fin 1) 1 ''x'',
                              newSale 2 ''2024-05-01'' ''B'' (Fin 1) 1 ''x'']) = ''B''
   \<and> first_greatest productName [newSale 1 ''2024-05-01'' ''A'' (Fin 1) 1 ''x'',
                                 newSale 2 ''2024-05-01'' ''B'' (Fin 1) 1 ''x''] = ''A''"
  by (simp add: calculateKPIs_def Let_def newSale_def tally_def top_key_def obj_get_def obj_set_def
      inherited_def Object_prototype_def Object_keys_def property_order_def is_array_index_def
      first_greatest_def first_seen_def summed_def fl_one fl_numeral)

text \<open>
  Claim C10. The top product of a non-empty collection should be the name of one of its
  records. A record named \<open>__proto__\<close> leaves no property in \<open>productSales\<close>, so
  for the collection of that one record the reduction runs over no key and returns its
  initial value \<open>None\<close>, which is no product name of the collection.
\<close>

theorem calculateKPIs_proto:
  "topProduct (calculateKPIs [newSale 1 ''2024-05-01'' ''__proto__'' (Fin 1) 3 ''misc'']) = ''None''
   \<and> ''None'' \<notin> productName ` set [newSale 1 ''2024-05-01'' ''__proto__'' (Fin 1) 3 ''misc'']"
  by (simp add: calculateKPIs_def Let_def newSale_def tally_def top_key_def obj_get_def obj_set_def
      inherited_def Object_prototype_def Object_keys_def property_order_def is_array_index_def)

section \<open>The chart series\<close>

text \<open>
  Claim C3, as the code has it. For a collection whose product names are plain,
  \<open>prepareChartData\<close> returns one entry per distinct product name, and the \<open>sales\<close>
  of an entry is the sum of \<open>quantity\<close> over the records of that name, added as
  numbers in collection order; this is the exact sum whenever the quantities of that
  name add up to at most \<open>2^53\<close> in magnitude. The entries of the names that are array
  indices come first, in ascending numeric order, and the entries of the other names
  follow in the order of first occurrence; when no name is an array index, this is the
  order of first occurrence.
\<close>

theorem prepareChartData_entries:
  assumes "\<forall>s \<in> set salesData. plain (productName s)"
  shows "prepareChartData salesData
           = map (\<lambda>n. \<lparr> name = n, sales = Some (Num (summed_number productName salesData n)) \<rparr>)
               (property_order (first_seen (map productName salesData)))
       \<and> (\<forall>n. magnitude productName salesData n \<le> 2 ^ 53 \<longrightarrow>
              summed_number productName salesData n
                = Fin (of_int (summed productName salesData n)))
       \<and> distinct (map name (prepareChartData salesData))
       \<and> set (map name (prepareChartData salesData)) = productName ` set salesData
       \<and> ((\<forall>s \<in> set salesData. \<not> is_array_index (productName s)) \<longrightarrow>
            map name (prepareChartData salesData) = first_seen (map productName salesData))"
proof -
  have eq: "prepareChartData salesData
           = map (\<lambda>n. \<lparr> name = n, sales = Some (Num (summed_number productName salesData n)) \<rparr>)
               (property_order (first_seen (map productName salesData)))"
    unfolding prepareChartData_def Let_def plain_keys [OF assms]
    by (rule map_cong) (simp_all add: plain_get [OF assms])
  have names: "map name (prepareChartData salesData)
                 = property_order (first_seen (map productName salesData))"
    unfolding eq by (simp add: comp_def)
  have "distinct (map name (prepareChartData salesData))"
    unfolding names by (simp add: distinct_property_order)
  moreover have "set (map name (prepareChartData salesData)) = productName ` set salesData"
    unfolding names by simp
  moreover have "(\<forall>s \<in> set salesData. \<not> is_array_index (productName s)) \<longrightarrow>
      map name (prepareChartData salesData) = first_seen (map productName salesData)"
    unfolding names by (simp add: property_order_id)
  moreover have "\<forall>n. magnitude productName salesData n \<le> 2 ^ 53 \<longrightarrow>
      summed_number productName salesData n = Fin (of_int (summed productName salesData n))"
    by (simp add: summed_number_exact)
  ultimately show ?thesis using eq by blast
qed

theorem prepareChartData_entries_witness:
  "prepareChartData [newSale 1 ''2024-05-01'' ''tea'' (Fin 2) 1 ''drinks'',
                     newSale 2 ''2024-05-01'' ''bun'' (Fin 1) 4 ''food'',
                     newSale 3 ''2024-05-02'' ''tea'' (Fin 2) 2 ''drinks'']
     = [\<lparr> name = ''tea'', sales = Some (Num (Fin 3)) \<rparr>,
        \<lparr> name = ''bun'', sales = Some (Num (Fin 4)) \<rparr>]
   \<and> prepareChartData [newSale 1 ''2024-05-01'' ''tea'' (Fin 2) 1 ''drinks'',
                       newSale 2 ''2024-05-01'' ''501'' (Fin 1) 4 ''jeans'',
                       newSale 3 ''2024-05-02'' ''tea'' (Fin 2) 2 ''drinks'']
     = [\<lparr> name = ''501'', sales = Some (Num (Fin 4)) \<rparr>,
        \<lparr> name = ''tea'', sales = Some (Num (Fin 3)) \<rparr>]"
proof -
  let ?a = "[newSale 1 ''2024-05-01'' ''tea'' (Fin 2) 1 ''drinks'',
             newSale 2 ''2024-05-01'' ''bun'' (Fin 1) 4 ''food'',
             newSale 3 ''2024-05-02'' ''tea'' (Fin 2) 2 ''drinks'']"
  let ?b = "[newSale 1 ''2024-05-01'' ''tea'' (Fin 2) 1 ''drinks'',
             newSale 2 ''2024-05-01'' ''501'' (Fin 1) 4 ''jeans'',
             newSale 3 ''2024-05-02'' ''tea'' (Fin 2) 2 ''drinks'']"
  have pa: "\<forall>s \<in> set ?a. plain (productName s)" and pb: "\<forall>s \<in> set ?b. plain (productName s)"
    by (simp_all add: newSale_def plain_examples)
  have ma: "magnitude productName ?a ''tea'' \<le> 2 ^ 53" "magnitude productName ?a ''bun'' \<le> 2 ^ 53"
    and mb: "magnitude productName ?b ''tea'' \<le> 2 ^ 53" "magnitude productName ?b ''501'' \<le> 2 ^ 53"
    by (simp_all add: magnitude_def newSale_def)
  from prepareChartData_entries [OF pa] ma
  have "prepareChartData ?a
          = [\<lparr> name = ''tea'', sales = Some (Num (Fin 3)) \<rparr>,
             \<lparr> name = ''bun'', sales = Some (Num (Fin 4)) \<rparr>]"
    by (simp add: newSale_def first_seen_def summed_def property_order_def is_array_index_def)
  moreover from prepareChartData_entries [OF pb] mb
  have "prepareChartData ?b
          = [\<lparr> name = ''501'', sales = Some (Num (Fin 4)) \<rparr>,
             \<lparr> name = ''tea'', sales = Some (Num (Fin 3)) \<rparr>]"
    by (simp add: newSale_def first_seen_def summed_def property_order_def is_array_index_def
        array_index_def)
  ultimately show ?thesis by simp
qed

text \<open>
  A product name that is an array index comes first in \<open>Object.keys\<close>, wherever it
  was encountered.
\<close>

theorem prepareChartData_order_counterexample:
  "prepareChartData [newSale 1 ''2024-05-01'' ''b'' (Fin 1) 1 ''x'',
                     newSale 2 ''2024-05-01'' ''1'' (Fin 1) 1 ''x'']
     = [\<lparr> name = ''1'', sales = Some (Num (Fin 1)) \<rparr>,
        \<lparr> name = ''b'', sales = Some (Num (Fin 1)) \<rparr>]
   \<and> first_seen (map productName [newSale 1 ''2024-05-01'' ''b'' (Fin 1) 1 ''x'',
                     newSale 2 ''2024-05-01'' ''1'' (Fin 1) 1 ''x'']) = [''b'', ''1'']"
  by (simp add: prepareChartData_def newSale_def tally_def obj_get_def obj_set_def
      inherited_def Object_prototype_def Object_keys_def property_order_def
      is_array_index_def array_index_def first_seen_def fl_one)

section \<open>Saving and loading\<close>

lemma in_property_order_id:
  "\<forall>p \<in> set ps. \<not> is_array_index (fst p) \<Longrightarrow> in_property_order ps = ps"
  by (simp add: in_property_order_def filter_id_conv filter_empty_conv)

lemma parse_stringify_sale:
  assumes "is_finite (price s)" "is_finite (total_sale s)"
  shows "JSON_parse (JSON_stringify (sale_value s)) = sale_value s"
proof -
  obtain p t where "price s = Fin p" "total_sale s = Fin t"
    using assms by (auto simp: is_finite_def split: number.splits)
  then show ?thesis
    by (simp add: sale_value_def in_property_order_id is_array_index_def)
qed

text \<open>
  A total that overflows is the number \<open>Infinity\<close>, which \<open>JSON.stringify\<close> writes as
  \<open>null\<close>: the record read back has \<open>null\<close> where the saved one has a number. A price
  of \<open>1e308\<close> and a quantity of 10 give such a total.
\<close>

lemma fl_overflowI:
  assumes "0 < x" "2 powi e \<le> x" "x < 2 powi (e + 1)" "- 1022 \<le> e"
    and "2 ^ 1024 \<le> rat_of_int (round_half_even (x / 2 powi (e - 52))) * 2 powi (e - 52)"
  shows "fl x = Infinity False"
proof -
  have "ilog2 \<bar>x\<bar> = e"
    using assms(1-3) by (intro ilog2_unique) simp_all
  then show ?thesis
    using assms by (simp add: fl_def Let_def max_def)
qed

lemma literal_1e308: "fl (10 ^ 308) = Fin (5010420900022432 * 2 ^ 971)"
  using fl_eqI [of "10 ^ 308" 1023 5010420900022432]
  by (simp add: round_half_even_def Let_def floor_numeral_div)

lemma times_10:
  "x = 5010420900022432 * 2 ^ 971 \<Longrightarrow> num_mul (Fin x) (Fin 10) = Infinity False"
  using fl_overflowI [of "5010420900022432 * 2 ^ 971 * 10" 1026]
  by (simp add: round_half_even_def Let_def floor_numeral_div)

theorem load_save_counterexample:
  "load (save (handleSubmit 1714550000000 ''2024-05-01'' ''gold'' (fl (10 ^ 308)) 10 ''metal'' [])
          (\<lambda>slot. None))
     = Some (VArray [VObject [(''id'', VNumber (Fin 1714550000000)),
                              (''date'', VString ''2024-05-01''),
                              (''productName'', VString ''gold''),
                              (''price'', VNumber (fl (10 ^ 308))),
                              (''quantity'', VNumber (Fin 10)),
                              (''category'', VString ''metal''),
                              (''total'', VNull)]])
   \<and> map sale_value
         (handleSubmit 1714550000000 ''2024-05-01'' ''gold'' (fl (10 ^ 308)) 10 ''metal'' [])
     = [VObject [(''id'', VNumber (Fin 1714550000000)),
                 (''date'', VString ''2024-05-01''),
                 (''productName'', VString ''gold''),
                 (''price'', VNumber (fl (10 ^ 308))),
                 (''quantity'', VNumber (Fin 10)),
                 (''category'', VString ''metal''),
                 (''total'', VNumber (Infinity False))]]"
  unfolding literal_1e308
  by (simp add: load_def save_def handleSubmit_def newSale_def sale_value_def times_10
      in_property_order_id is_array_index_def del: num_mul.simps)

text \<open>
  Claim C7, as the code has it. For a collection whose prices and totals are finite
  numbers, the value read back after saving is the collection itself, record by record
  and field by field, in the same order.
\<close>

theorem load_save:
  assumes "\<forall>s \<in> set salesData. is_finite (price s) \<and> is_finite (total_sale s)"
  shows "load (save salesData localStorage) = Some (VArray (map sale_value salesData))"
proof -
  have "map (\<lambda>s. JSON_parse (JSON_stringify (sale_value s))) salesData = map sale_value salesData"
    by (rule map_cong) (simp_all add: assms parse_stringify_sale)
  then show ?thesis
    by (simp add: load_def save_def comp_def)
qed

theorem load_save_witness:
  "load (save [newSale 1 ''2024-05-01'' ''tea'' (Fin 2) 1 ''drinks'',
               newSale 2 ''2024-05-01'' ''bun'' (Fin 1) 4 ''food''] (\<lambda>slot. None))
     = Some (VArray [VObject [(''id'', VNumber (Fin 1)),
                              (''date'', VString ''2024-05-01''),
                              (''productName'', VString ''tea''),
                              (''price'', VNumber (Fin 2)),
                              (''quantity'', VNumber (Fin 1)),
                              (''category'', VString ''drinks''),
                              (''total'', VNumber (Fin 2))],
                     VObject [(''id'', VNumber (Fin 2)),
                              (''date'', VString ''2024-05-01''),
                              (''productName'', VString ''bun''),
                              (''price'', VNumber (Fin 1)),
                              (''quantity'', VNumber (Fin 4)),
                              (''category'', VString ''food''),
                              (''total'', VNumber (Fin 4))]])"
  using load_save [of "[newSale 1 ''2024-05-01'' ''tea'' (Fin 2) 1 ''drinks'',
               newSale 2 ''2024-05-01'' ''bun'' (Fin 1) 4 ''food'']" "\<lambda>slot. None"]
  by (simp add: newSale_def sale_value_def is_finite_def fl_numeral)

section \<open>Two sales of one product\<close>

text \<open>
  The number written \<open>9.99\<close> is \<open>fl (999 / 100)\<close>, the binary64 value nearest to
  it. The lemmas below follow the arithmetic of the scenario step by step.
\<close>

lemma literal_9_99: "fl (999 / 100) = Fin (5623870034678907 / 562949953421312)"
  using fl_eqI [of "999 / 100" 3 5623870034678907]
  by (simp add: round_half_even_def Let_def floor_numeral_div)

lemma literal_49_95: "fl (4995 / 100) = Fin (3514918771674317 / 70368744177664)"
  using fl_eqI [of "4995 / 100" 5 7029837543348634]
  by (simp add: round_half_even_def Let_def floor_numeral_div)

lemma literal_24_975: "fl (24975 / 1000) = Fin (3514918771674317 / 140737488355328)"
  using fl_eqI [of "24975 / 1000" 4 7029837543348634]
  by (simp add: round_half_even_def Let_def floor_numeral_div)

lemma times_3:
  "num_mul (Fin (5623870034678907 / 562949953421312)) (Fin 3)
     = Fin (1054475631502295 / 35184372088832)"
  using fl_eqI [of "5623870034678907 / 562949953421312 * 3" 4 8435805052018360]
  by (simp add: round_half_even_def Let_def floor_numeral_div)

lemma times_2:
  "num_mul (Fin (5623870034678907 / 562949953421312)) (Fin 2)
     = Fin (5623870034678907 / 281474976710656)"
  using fl_eqI [of "5623870034678907 / 562949953421312 * 2" 4 5623870034678907]
  by (simp add: round_half_even_def Let_def floor_numeral_div)

lemma sum_first:
  "num_add (Fin 0) (Fin (1054475631502295 / 35184372088832))
     = Fin (1054475631502295 / 35184372088832)"
  using fl_eqI [of "1054475631502295 / 35184372088832" 4 8435805052018360]
  by (simp add: round_half_even_def Let_def floor_numeral_div)

lemma sum_second:
  "num_add (Fin (1054475631502295 / 35184372088832)) (Fin (5623870034678907 / 281474976710656))
     = Fin (3514918771674317 / 70368744177664)"
  using fl_eqI [of "1054475631502295 / 35184372088832 + 5623870034678907 / 281474976710656"
      5 7029837543348634]
  by (simp add: round_half_even_def Let_def floor_numeral_div)

lemma quantities:
  "num_add (Fin 0) (Fin 3) = Fin 3" "num_add (Fin 3) (Fin 2) = Fin 5"
  by (simp_all add: fl_numeral)

lemma halved:
  "num_div (Fin (3514918771674317 / 70368744177664)) (Fin 2)
     = Fin (3514918771674317 / 140737488355328)"
  using fl_eqI [of "3514918771674317 / 70368744177664 / 2" 4 7029837543348634]
  by (simp add: round_half_even_def Let_def floor_numeral_div)

text \<open>
  Claim C9. From the empty collection, a sale of 3 Widgets at 9.99 in Tools followed by
  a sale of 2 Widgets at 9.99 in Tools gives 2 sales, a revenue of 49.95, an average of
  24.975, Widget as top product and Tools as top category, and the chart series of the
  single entry Widget with 5 sold.
\<close>

theorem widget_scenario:
  "calculateKPIs
     (handleSubmit now2 today2 ''Widget'' (fl (999 / 100)) 2 ''Tools''
       (handleSubmit now1 today1 ''Widget'' (fl (999 / 100)) 3 ''Tools'' []))
     = \<lparr> totalSales = 2, totalRevenue = fl (4995 / 100), avgOrderValue = fl (24975 / 1000),
         topProduct = ''Widget'', topCategory = ''Tools'' \<rparr>
   \<and> prepareChartData
     (handleSubmit now2 today2 ''Widget'' (fl (999 / 100)) 2 ''Tools''
       (handleSubmit now1 today1 ''Widget'' (fl (999 / 100)) 3 ''Tools'' []))
     = [\<lparr> name = ''Widget'', sales = Some (Num (Fin 5)) \<rparr>]"
  unfolding literal_9_99 literal_49_95 literal_24_975
  by (simp add: calculateKPIs_def prepareChartData_def Let_def handleSubmit_def newSale_def
      times_3 times_2 sum_first sum_second halved quantities
      tally_def top_key_def obj_get_def obj_set_def inherited_def Object_prototype_def
      Object_keys_def property_order_def is_array_index_def
      del: num_add.simps num_mul.simps num_div.simps)

end
